theory Spec2Isabelle
  imports Main
begin

section \<open>The file-hash page: data model\<close>

text \<open>
  The page \<^verbatim>\<open>src/pages/file-hash.vue\<close> holds two reactive strings, \<^verbatim>\<open>filePath\<close> and
  \<^verbatim>\<open>hashResult\<close>, and two asynchronous functions, \<^verbatim>\<open>selectFile\<close> and
  \<^verbatim>\<open>calculateHash\<close>. They talk to three things outside the page: the native file
  picker (\<^verbatim>\<open>open\<close>), the backend command bridge (\<^verbatim>\<open>invoke\<close>) and the notification
  service (\<^verbatim>\<open>ElNotification\<close>).

  An asynchronous function is modelled as a computation that takes the page state and
  returns the settled promise together with the new state: \<open>Inl e\<close> is a rejection with
  the thrown value \<open>e\<close>, \<open>Inr v\<close> is fulfilment with \<open>v\<close>. A run is sequential: it
  is followed from its start to the settlement of its promise, with what the picker and
  the backend answer given as inputs of the run. Everything the run does that is visible
  from outside (assignments to the two refs, the calls to the picker and to the backend,
  notifications) is appended, in program order, to a trace kept in the state.
\<close>

text \<open>The argument of \<^verbatim>\<open>open\<close>.\<close>

record dialog_filter =
  name :: string
  extensions :: "string list"

record open_options =
  multiple :: bool
  directory :: bool
  filters :: "dialog_filter list"

text \<open>The argument of \<^verbatim>\<open>ElNotification\<close>.\<close>

record notification =
  title :: string
  message :: string
  type :: string

text \<open>
  How the picker settles: it resolves with the selected path or with \<^verbatim>\<open>null\<close>
  (\<open>None\<close>), or it rejects with an error value.
\<close>

datatype 'e picker_outcome = PickerResolved "string option" | PickerRejected 'e

text \<open>How the backend command settles: with the digest text, or with an error value.\<close>

datatype 'e invoke_outcome = InvokeResolved string | InvokeRejected 'e

text \<open>
  The trace. A backend request \<open>Invoke cmd path shown outcome\<close> is recorded with the
  command name, the \<^verbatim>\<open>filePath\<close> argument it was issued with, the value that
  \<^verbatim>\<open>hashResult\<close> had at the moment the request was issued (what the page shows while
  the request is pending), and the answer the request received.
\<close>

datatype 'e event =
    Open open_options
  | Assign_filePath string
  | Assign_hashResult string
  | Invoke string string string "'e invoke_outcome"
  | Notify notification

record 'e state =
  filePath :: string
  hashResult :: string
  trace :: "'e event list"

text \<open>\<^verbatim>\<open>const filePath = ref('')\<close>, \<^verbatim>\<open>const hashResult = ref('')\<close>.\<close>

definition init_state :: "'e state" where
  "init_state = \<lparr>filePath = [], hashResult = [], trace = []\<rparr>"

type_synonym ('e, 'a) promise = "'e state \<Rightarrow> ('e + 'a) \<times> 'e state"

section \<open>Control flow: sequencing, \<^verbatim>\<open>await\<close>, \<^verbatim>\<open>try\<close>/\<^verbatim>\<open>catch\<close>\<close>

definition return :: "'a \<Rightarrow> ('e, 'a) promise" where
  "return v = (\<lambda>s. (Inr v, s))"

text \<open>
  \<^verbatim>\<open>const x = await m; f(x)\<close>: a rejection of \<open>m\<close> is thrown at the \<^verbatim>\<open>await\<close> and
  skips the rest.
\<close>

definition await :: "('e, 'a) promise \<Rightarrow> ('a \<Rightarrow> ('e, 'b) promise) \<Rightarrow> ('e, 'b) promise" where
  "await m f = (\<lambda>s. case m s of (Inl e, s') \<Rightarrow> (Inl e, s') | (Inr v, s') \<Rightarrow> f v s')"

text \<open>\<^verbatim>\<open>try { body } catch (error) { handler }\<close>.\<close>

definition try_catch :: "('e, 'a) promise \<Rightarrow> ('e \<Rightarrow> ('e, 'a) promise) \<Rightarrow> ('e, 'a) promise" where
  "try_catch body handler =
     (\<lambda>s. case body s of (Inl e, s') \<Rightarrow> handler e s' | (Inr v, s') \<Rightarrow> (Inr v, s'))"

text \<open>An expression whose evaluation returns a value or throws.\<close>

definition evaluate :: "'e + 'a \<Rightarrow> ('e, 'a) promise" where
  "evaluate r = (\<lambda>s. (r, s))"

text \<open>JavaScript truthiness of a string: only the empty string is falsy.\<close>

definition truthy :: "string \<Rightarrow> bool" where
  "truthy v = (v \<noteq> [])"

section \<open>The primitives of the page\<close>

definition log :: "'e event \<Rightarrow> 'e state \<Rightarrow> 'e state" where
  "log ev s = s\<lparr>trace := trace s @ [ev]\<rparr>"

text \<open>\<^verbatim>\<open>filePath.value = v\<close> and \<^verbatim>\<open>hashResult.value = v\<close>.\<close>

definition set_filePath :: "string \<Rightarrow> ('e, unit) promise" where
  "set_filePath v = (\<lambda>s. (Inr (), log (Assign_filePath v) (s\<lparr>filePath := v\<rparr>)))"

definition set_hashResult :: "string \<Rightarrow> ('e, unit) promise" where
  "set_hashResult v = (\<lambda>s. (Inr (), log (Assign_hashResult v) (s\<lparr>hashResult := v\<rparr>)))"

text \<open>
  \<^verbatim>\<open>open(options)\<close> of the dialog plugin: the dialog is shown, and the promise settles
  as the picker does in this run.
\<close>

text \<open>(The name \<open>open\<close> is a keyword of Isabelle, hence \<open>open_dialog\<close>.)\<close>

definition open_dialog :: "'e picker_outcome \<Rightarrow> open_options \<Rightarrow> ('e, string option) promise" where
  "open_dialog picked options =
     (\<lambda>s. (case picked of PickerResolved selected \<Rightarrow> Inr selected | PickerRejected e \<Rightarrow> Inl e,
           log (Open options) s))"

text \<open>
  \<^verbatim>\<open>invoke(cmd, { filePath: path })\<close>: the request is sent, and the promise settles as the
  backend answers that request in this run.
\<close>

definition invoke :: "(string \<Rightarrow> string \<Rightarrow> 'e invoke_outcome) \<Rightarrow> string \<Rightarrow> string \<Rightarrow> ('e, string) promise" where
  "invoke backend cmd path =
     (\<lambda>s. (case backend cmd path of InvokeResolved result \<Rightarrow> Inr result | InvokeRejected e \<Rightarrow> Inl e,
           log (Invoke cmd path (hashResult s) (backend cmd path)) s))"

definition ElNotification :: "notification \<Rightarrow> ('e, unit) promise" where
  "ElNotification n = (\<lambda>s. (Inr (), log (Notify n) s))"

text \<open>
  The title of the failure notification is a fixed Chinese string literal of the source;
  here it is its UTF-8 encoding.
\<close>

definition failure_title :: string where
  "failure_title = map char_of
     [232, 174, 161, 231, 174, 151, 229, 147, 136, 229, 184, 140, 229, 128, 188,
      229, 164, 177, 232, 180, 165 :: nat]"

section \<open>The two functions of the page\<close>

text \<open>
  \<^verbatim>\<open>calculateHash\<close>. \<open>String\<close> is JavaScript's \<^verbatim>\<open>String(error)\<close> on the error
  values of the backend: it returns the string form (\<open>Inr\<close>), or it throws (\<open>Inl\<close>), as
  the conversion of an object to a primitive can. The argument of \<^verbatim>\<open>ElNotification\<close> is
  evaluated inside the \<^verbatim>\<open>catch\<close> block, so what \<open>String\<close> throws there is not caught
  by it.
\<close>

definition calculateHash ::
  "(string \<Rightarrow> string \<Rightarrow> 'e invoke_outcome) \<Rightarrow> ('e \<Rightarrow> 'e + string) \<Rightarrow> ('e, unit) promise" where
  "calculateHash backend String =
     (\<lambda>s. if \<not> truthy (filePath s) then return () s
          else await (set_hashResult [])
                 (\<lambda>_. try_catch
                         (await (\<lambda>s'. invoke backend ''calculate_file_hash'' (filePath s') s')
                            (\<lambda>result. set_hashResult result))
                         (\<lambda>error. await (evaluate (String error))
                            (\<lambda>text. ElNotification
                               \<lparr>title = failure_title, message = text, type = ''error''\<rparr>))) s)"

text \<open>The options \<^verbatim>\<open>selectFile\<close> passes to the picker.\<close>

definition picker_options :: open_options where
  "picker_options =
     \<lparr>multiple = False, directory = False,
      filters = [\<lparr>name = ''All Files'', extensions = [''*'']\<rparr>]\<rparr>"

text \<open>
  The body of the \<^verbatim>\<open>try\<close> block of \<^verbatim>\<open>selectFile\<close>. \<^verbatim>\<open>selected\<close> is a string or
  \<^verbatim>\<open>null\<close>, so \<^verbatim>\<open>!selected\<close> holds for \<^verbatim>\<open>null\<close> and for the empty string.
\<close>

definition selectFile_try ::
  "'e picker_outcome \<Rightarrow> (string \<Rightarrow> string \<Rightarrow> 'e invoke_outcome) \<Rightarrow> ('e \<Rightarrow> 'e + string) \<Rightarrow> ('e, unit) promise" where
  "selectFile_try picked backend String =
     await (open_dialog picked picker_options)
       (\<lambda>selected. case selected of
            None \<Rightarrow> return ()
          | Some path \<Rightarrow>
              if \<not> truthy path then return ()
              else await (set_filePath path) (\<lambda>_. calculateHash backend String))"

text \<open>\<^verbatim>\<open>selectFile\<close>: the \<^verbatim>\<open>try\<close> block, with the empty \<^verbatim>\<open>catch\<close> block.\<close>

definition selectFile ::
  "'e picker_outcome \<Rightarrow> (string \<Rightarrow> string \<Rightarrow> 'e invoke_outcome) \<Rightarrow> ('e \<Rightarrow> 'e + string) \<Rightarrow> ('e, unit) promise" where
  "selectFile picked backend String =
     try_catch (selectFile_try picked backend String) (\<lambda>error. return ())"

section \<open>Reading a trace\<close>

text \<open>The events a run added to the trace.\<close>

definition emitted :: "'e state \<Rightarrow> 'e state \<Rightarrow> 'e event list" where
  "emitted s s' = drop (length (trace s)) (trace s')"

fun requests :: "'e event list \<Rightarrow> (string \<times> string) list" where
  "requests [] = []"
| "requests (Invoke cmd path shown outcome # evs) = (cmd, path) # requests evs"
| "requests (_ # evs) = requests evs"

fun notifications :: "'e event list \<Rightarrow> notification list" where
  "notifications [] = []"
| "notifications (Notify n # evs) = n # notifications evs"
| "notifications (_ # evs) = notifications evs"

text \<open>
  The most recent backend request of a trace: its command, the path it was issued with,
  and the answer it received.
\<close>

fun last_request :: "'e event list \<Rightarrow> (string \<times> string \<times> 'e invoke_outcome) option" where
  "last_request [] = None"
| "last_request (ev # evs) =
     (case last_request evs of
        Some r \<Rightarrow> Some r
      | None \<Rightarrow>
          (case ev of Invoke cmd path shown outcome \<Rightarrow> Some (cmd, path, outcome) | _ \<Rightarrow> None))"

text \<open>The paths assigned to \<^verbatim>\<open>filePath\<close> in a trace.\<close>

fun filePath_writes :: "'e event list \<Rightarrow> string list" where
  "filePath_writes [] = []"
| "filePath_writes (Assign_filePath v # evs) = v # filePath_writes evs"
| "filePath_writes (_ # evs) = filePath_writes evs"

section \<open>Sequences of runs\<close>

text \<open>
  The page is driven by runs of its two functions, one after the other; each run comes
  with what the picker and the backend answer during it.
\<close>

datatype 'e operation =
    SelectFile "'e picker_outcome" "string \<Rightarrow> string \<Rightarrow> 'e invoke_outcome"
  | CalculateHash "string \<Rightarrow> string \<Rightarrow> 'e invoke_outcome"

fun run :: "('e \<Rightarrow> 'e + string) \<Rightarrow> 'e operation \<Rightarrow> 'e state \<Rightarrow> 'e state" where
  "run String (SelectFile picked backend) s = snd (selectFile picked backend String s)"
| "run String (CalculateHash backend) s = snd (calculateHash backend String s)"

fun run_all :: "('e \<Rightarrow> 'e + string) \<Rightarrow> 'e operation list \<Rightarrow> 'e state \<Rightarrow> 'e state" where
  "run_all String [] s = s"
| "run_all String (op # ops) s = run_all String ops (run String op s)"

text \<open>The paths the picker returned in a sequence of runs.\<close>

fun picked_paths :: "'e operation list \<Rightarrow> string list" where
  "picked_paths [] = []"
| "picked_paths (SelectFile (PickerResolved (Some path)) backend # ops) = path # picked_paths ops"
| "picked_paths (_ # ops) = picked_paths ops"

text \<open>
  The stored digest is current: \<^verbatim>\<open>hashResult\<close> is empty, or the most recent request was
  issued with the stored \<^verbatim>\<open>filePath\<close> and was answered with the stored \<^verbatim>\<open>hashResult\<close>.
\<close>

definition digest_current :: "'e state \<Rightarrow> bool" where
  "digest_current s =
     (if hashResult s = [] then True
      else last_request (trace s) =
             Some (''calculate_file_hash'', filePath s, InvokeResolved (hashResult s)))"

section \<open>Error values\<close>

text \<open>
  The error values used in the examples below, with JavaScript's \<^verbatim>\<open>String\<close> on them:
  a string, which is its own string form; a plain object as the command bridge delivers
  it (parsed from JSON), given by the names of its own properties; and a \<^verbatim>\<open>TypeError\<close>
  with its message. The values of a parsed object are never callable, so an own property
  \<^verbatim>\<open>toString\<close> (as in \<^verbatim>\<open>{"toString": 1}\<close>) leaves no way to convert the object to a
  primitive, and \<^verbatim>\<open>String\<close> throws a \<^verbatim>\<open>TypeError\<close>; without it the inherited
  \<^verbatim>\<open>toString\<close> answers.
\<close>

datatype js_error = JsString string | JsObject "string list" | JsTypeError string

fun String_js :: "js_error \<Rightarrow> js_error + string" where
  "String_js (JsString text) = Inr text"
| "String_js (JsObject keys) =
     (if ''toString'' \<in> set keys
      then Inl (JsTypeError ''Cannot convert object to primitive value'')
      else Inr ''[object Object]'')"
| "String_js (JsTypeError text) = Inr (''TypeError: '' @ text)"

text \<open>Two backends for the examples: one resolves every request, one rejects every request.\<close>

definition backend_resolving :: "string \<Rightarrow> string \<Rightarrow> string \<Rightarrow> js_error invoke_outcome" where
  "backend_resolving d cmd path = InvokeResolved d"

definition backend_rejecting :: "js_error \<Rightarrow> string \<Rightarrow> string \<Rightarrow> js_error invoke_outcome" where
  "backend_rejecting e cmd path = InvokeRejected e"

text \<open>A state of the page after a first successful selection, with an empty trace.\<close>

definition shown_state :: "js_error state" where
  "shown_state = \<lparr>filePath = ''/tmp/a.txt'', hashResult = ''e3b0c4'', trace = []\<rparr>"


section \<open>Basic facts\<close>

lemma emitted_append: "trace s' = trace s @ evs \<Longrightarrow> emitted s s' = evs"
  by (simp add: emitted_def)

lemma last_request_append:
  "last_request (evs @ evs') =
     (case last_request evs' of Some r \<Rightarrow> Some r | None \<Rightarrow> last_request evs)"
  by (induction evs) (auto split: option.splits)

lemma filePath_writes_append:
  "filePath_writes (evs @ evs') = filePath_writes evs @ filePath_writes evs'"
  by (induction evs rule: filePath_writes.induct) simp_all

subsection \<open>What a run of \<^verbatim>\<open>calculateHash\<close> does, case by case\<close>

lemma calculateHash_no_path:
  "filePath s = [] \<Longrightarrow> calculateHash backend String s = (Inr (), s)"
  by (simp add: calculateHash_def truthy_def return_def)

lemma calculateHash_resolved:
  assumes "filePath s \<noteq> []"
    and "backend ''calculate_file_hash'' (filePath s) = InvokeResolved d"
  shows "calculateHash backend String s =
           (Inr (), s\<lparr>hashResult := d,
                      trace := trace s @
                        [Assign_hashResult [],
                         Invoke ''calculate_file_hash'' (filePath s) [] (InvokeResolved d),
                         Assign_hashResult d]\<rparr>)"
  using assms
  by (simp add: calculateHash_def truthy_def await_def try_catch_def set_hashResult_def
      invoke_def log_def)

lemma calculateHash_rejected:
  assumes "filePath s \<noteq> []"
    and "backend ''calculate_file_hash'' (filePath s) = InvokeRejected e"
    and "String e = Inr text"
  shows "calculateHash backend String s =
           (Inr (), s\<lparr>hashResult := [],
                      trace := trace s @
                        [Assign_hashResult [],
                         Invoke ''calculate_file_hash'' (filePath s) [] (InvokeRejected e),
                         Notify \<lparr>title = failure_title, message = text, type = ''error''\<rparr>]\<rparr>)"
  using assms
  by (simp add: calculateHash_def truthy_def await_def try_catch_def set_hashResult_def
      invoke_def ElNotification_def evaluate_def log_def)

lemma calculateHash_rejected_throws:
  assumes "filePath s \<noteq> []"
    and "backend ''calculate_file_hash'' (filePath s) = InvokeRejected e"
    and "String e = Inl t"
  shows "calculateHash backend String s =
           (Inl t, s\<lparr>hashResult := [],
                     trace := trace s @
                       [Assign_hashResult [],
                        Invoke ''calculate_file_hash'' (filePath s) [] (InvokeRejected e)]\<rparr>)"
  using assms
  by (simp add: calculateHash_def truthy_def await_def try_catch_def set_hashResult_def
      invoke_def evaluate_def log_def)

text \<open>
  The common shape of the three cases: the run clears \<^verbatim>\<open>hashResult\<close>, issues the request
  while \<^verbatim>\<open>hashResult\<close> is empty, and ends with the digest stored if the request
  resolved and with \<^verbatim>\<open>hashResult\<close> empty if it was rejected. What follows the request
  in the trace is one assignment to \<^verbatim>\<open>hashResult\<close>, one notification, or nothing.
\<close>

lemma calculateHash_shape:
  assumes "filePath s \<noteq> []"
  shows "\<exists>evs. snd (calculateHash backend String s) =
           s\<lparr>hashResult :=
                (case backend ''calculate_file_hash'' (filePath s) of
                   InvokeResolved d \<Rightarrow> d | InvokeRejected e \<Rightarrow> []),
             trace := trace s @
               Assign_hashResult []
               # Invoke ''calculate_file_hash'' (filePath s) []
                   (backend ''calculate_file_hash'' (filePath s))
               # evs\<rparr>
         \<and> filePath_writes evs = [] \<and> last_request evs = None"
proof (cases "backend ''calculate_file_hash'' (filePath s)")
  case (InvokeResolved d)
  with assms show ?thesis
    by (intro exI [of _ "[Assign_hashResult d]"]) (simp add: calculateHash_resolved)
next
  case (InvokeRejected e)
  show ?thesis
  proof (cases "String e")
    case (Inl t)
    with assms InvokeRejected show ?thesis
      by (intro exI [of _ "[]"]) (simp add: calculateHash_rejected_throws)
  next
    case (Inr msg)
    with assms InvokeRejected show ?thesis
      by (intro exI [of _ "[Notify \<lparr>title = failure_title, message = msg, type = ''error''\<rparr>]"])
        (simp add: calculateHash_rejected)
  qed
qed

subsection \<open>What a run of \<^verbatim>\<open>selectFile\<close> does, case by case\<close>

lemma selectFile_try_cancelled:
  "selectFile_try (PickerResolved None) backend String s = (Inr (), log (Open picker_options) s)"
  by (simp add: selectFile_try_def await_def open_dialog_def return_def)

lemma selectFile_try_empty:
  "selectFile_try (PickerResolved (Some [])) backend String s =
     (Inr (), log (Open picker_options) s)"
  by (simp add: selectFile_try_def await_def open_dialog_def return_def truthy_def)

lemma selectFile_try_rejected:
  "selectFile_try (PickerRejected e) backend String s = (Inl e, log (Open picker_options) s)"
  by (simp add: selectFile_try_def await_def open_dialog_def)

lemma selectFile_try_selected:
  "p \<noteq> [] \<Longrightarrow>
   selectFile_try (PickerResolved (Some p)) backend String s =
     calculateHash backend String
       (s\<lparr>filePath := p, trace := trace s @ [Open picker_options, Assign_filePath p]\<rparr>)"
  by (simp add: selectFile_try_def await_def open_dialog_def truthy_def set_filePath_def log_def)

lemma selectFile_cancelled:
  "selectFile (PickerResolved None) backend String s = (Inr (), log (Open picker_options) s)"
  by (simp add: selectFile_def try_catch_def selectFile_try_cancelled)

lemma selectFile_empty:
  "selectFile (PickerResolved (Some [])) backend String s =
     (Inr (), log (Open picker_options) s)"
  by (simp add: selectFile_def try_catch_def selectFile_try_empty)

lemma selectFile_rejected:
  "selectFile (PickerRejected e) backend String s = (Inr (), log (Open picker_options) s)"
  by (simp add: selectFile_def try_catch_def selectFile_try_rejected return_def)

text \<open>
  With a selection, \<^verbatim>\<open>selectFile\<close> ends in the state in which \<^verbatim>\<open>calculateHash\<close> ends,
  whether \<^verbatim>\<open>calculateHash\<close> was fulfilled or rejected.
\<close>

lemma selectFile_selected:
  assumes "p \<noteq> []"
  shows "selectFile (PickerResolved (Some p)) backend String s =
           (Inr (), snd (calculateHash backend String
              (s\<lparr>filePath := p,
                 trace := trace s @ [Open picker_options, Assign_filePath p]\<rparr>)))"
  using assms
  by (simp add: selectFile_def try_catch_def selectFile_try_selected return_def
      split: prod.splits sum.splits)

lemma selectFile_resolved:
  assumes "p \<noteq> []" and "backend ''calculate_file_hash'' p = InvokeResolved d"
  shows "selectFile (PickerResolved (Some p)) backend String s =
           (Inr (), s\<lparr>filePath := p, hashResult := d,
                      trace := trace s @
                        [Open picker_options, Assign_filePath p, Assign_hashResult [],
                         Invoke ''calculate_file_hash'' p [] (InvokeResolved d),
                         Assign_hashResult d]\<rparr>)"
  using assms by (simp add: selectFile_selected calculateHash_resolved)




subsection \<open>The request of a run of \<^verbatim>\<open>selectFile\<close>\<close>



subsection \<open>When \<^verbatim>\<open>calculateHash\<close> rejects\<close>



subsection \<open>One run, whatever it is\<close>

text \<open>
  Every run extends the trace. The events it adds assign to \<^verbatim>\<open>filePath\<close> only a
  non-empty path that the picker returned in this run, and \<^verbatim>\<open>filePath\<close> afterwards is
  the old one or such a path.
\<close>

lemma run_filePath:
  "\<exists>evs. trace (run String op s) = trace s @ evs
         \<and> set (filePath_writes evs) \<subseteq> set (picked_paths [op]) - {[]}
         \<and> (filePath (run String op s) = filePath s
              \<or> filePath (run String op s) \<in> set (picked_paths [op]) - {[]})"
proof (cases op)
  case (CalculateHash backend)
  show ?thesis
  proof (cases "filePath s = []")
    case True
    with CalculateHash show ?thesis by (simp add: calculateHash_no_path)
  next
    case False
    then obtain evs where
      "snd (calculateHash backend String s) =
         s\<lparr>hashResult :=
              (case backend ''calculate_file_hash'' (filePath s) of
                 InvokeResolved d \<Rightarrow> d | InvokeRejected e \<Rightarrow> []),
           trace := trace s @
             Assign_hashResult []
             # Invoke ''calculate_file_hash'' (filePath s) []
                 (backend ''calculate_file_hash'' (filePath s))
             # evs\<rparr>"
      and "filePath_writes evs = []"
      using calculateHash_shape [of s backend String] by blast
    with CalculateHash show ?thesis by simp
  qed
next
  case (SelectFile picked backend)
  show ?thesis
  proof (cases picked)
    case (PickerRejected e)
    with SelectFile show ?thesis by (simp add: selectFile_rejected log_def)
  next
    case (PickerResolved selected)
    show ?thesis
    proof (cases selected)
      case None
      with SelectFile PickerResolved show ?thesis by (simp add: selectFile_cancelled log_def)
    next
      case (Some p)
      show ?thesis
      proof (cases "p = []")
        case True
        with SelectFile PickerResolved Some show ?thesis
          by (simp add: selectFile_empty log_def)
      next
        case False
        define s1 where
          "s1 = s\<lparr>filePath := p, trace := trace s @ [Open picker_options, Assign_filePath p]\<rparr>"
        have "filePath s1 \<noteq> []"
          using False by (simp add: s1_def)
        then obtain evs where
          "snd (calculateHash backend String s1) =
             s1\<lparr>hashResult :=
                  (case backend ''calculate_file_hash'' (filePath s1) of
                     InvokeResolved d \<Rightarrow> d | InvokeRejected e \<Rightarrow> []),
                trace := trace s1 @
                  Assign_hashResult []
                  # Invoke ''calculate_file_hash'' (filePath s1) []
                      (backend ''calculate_file_hash'' (filePath s1))
                  # evs\<rparr>"
          and "filePath_writes evs = []"
          using calculateHash_shape [of s1 backend String] by blast
        with SelectFile PickerResolved Some False show ?thesis
          by (simp add: selectFile_selected s1_def [symmetric]) (simp add: s1_def)
      qed
    qed
  qed
qed

lemma picked_paths_Cons:
  "set (picked_paths (op # ops)) = set (picked_paths [op]) \<union> set (picked_paths ops)"
  by (induction "op # ops" rule: picked_paths.induct) auto

lemma run_all_filePath:
  "\<exists>evs. trace (run_all String ops s) = trace s @ evs
         \<and> set (filePath_writes evs) \<subseteq> set (picked_paths ops) - {[]}
         \<and> (filePath (run_all String ops s) = filePath s
              \<or> filePath (run_all String ops s) \<in> set (picked_paths ops) - {[]})"
proof (induction ops arbitrary: s)
  case Nil
  show ?case by simp
next
  case (Cons op ops)
  obtain evs1 where 1: "trace (run String op s) = trace s @ evs1"
    "set (filePath_writes evs1) \<subseteq> set (picked_paths [op]) - {[]}"
    "filePath (run String op s) = filePath s
       \<or> filePath (run String op s) \<in> set (picked_paths [op]) - {[]}"
    using run_filePath [of String op s] by blast
  obtain evs2 where 2: "trace (run_all String ops (run String op s)) = trace (run String op s) @ evs2"
    "set (filePath_writes evs2) \<subseteq> set (picked_paths ops) - {[]}"
    "filePath (run_all String ops (run String op s)) = filePath (run String op s)
       \<or> filePath (run_all String ops (run String op s)) \<in> set (picked_paths ops) - {[]}"
    using Cons.IH [of "run String op s"] by blast
  have "trace (run_all String (op # ops) s) = trace s @ (evs1 @ evs2)"
    using 1(1) 2(1) by simp
  moreover have "set (filePath_writes (evs1 @ evs2)) \<subseteq> set (picked_paths (op # ops)) - {[]}"
    using 1(2) 2(2) by (auto simp add: filePath_writes_append picked_paths_Cons [of op ops])
  moreover have "filePath (run_all String (op # ops) s) = filePath s
       \<or> filePath (run_all String (op # ops) s) \<in> set (picked_paths (op # ops)) - {[]}"
    using 1(3) 2(3) by (auto simp add: picked_paths_Cons [of op ops])
  ultimately show ?case by blast
qed

subsection \<open>The stored digest stays current\<close>

lemma calculateHash_digest_current:
  assumes "filePath s \<noteq> []"
  shows "digest_current (snd (calculateHash backend String s))"
proof -
  from assms obtain evs where
    "snd (calculateHash backend String s) =
       s\<lparr>hashResult :=
            (case backend ''calculate_file_hash'' (filePath s) of
               InvokeResolved d \<Rightarrow> d | InvokeRejected e \<Rightarrow> []),
         trace := trace s @
           Assign_hashResult []
           # Invoke ''calculate_file_hash'' (filePath s) []
               (backend ''calculate_file_hash'' (filePath s))
           # evs\<rparr>"
    and "last_request evs = None"
    using calculateHash_shape [of s backend String] by blast
  then show ?thesis
    by (cases "backend ''calculate_file_hash'' (filePath s)")
      (simp_all add: digest_current_def last_request_append)
qed

lemma run_digest_current:
  assumes "digest_current s"
  shows "digest_current (run String op s)"
proof (cases op)
  case (CalculateHash backend)
  show ?thesis
  proof (cases "filePath s = []")
    case True
    with CalculateHash assms show ?thesis by (simp add: calculateHash_no_path)
  next
    case False
    with CalculateHash show ?thesis by (simp add: calculateHash_digest_current)
  qed
next
  case (SelectFile picked backend)
  have opened: "digest_current (log (Open picker_options) s)"
    using assms by (simp add: digest_current_def log_def last_request_append)
  show ?thesis
  proof (cases picked)
    case (PickerRejected e)
    with SelectFile opened show ?thesis by (simp add: selectFile_rejected)
  next
    case (PickerResolved selected)
    show ?thesis
    proof (cases selected)
      case None
      with SelectFile PickerResolved opened show ?thesis by (simp add: selectFile_cancelled)
    next
      case (Some p)
      show ?thesis
      proof (cases "p = []")
        case True
        with SelectFile PickerResolved Some opened show ?thesis
          by (simp add: selectFile_empty)
      next
        case False
        with SelectFile PickerResolved Some show ?thesis
          by (simp add: selectFile_selected calculateHash_digest_current)
      qed
    qed
  qed
qed

lemma run_all_digest_current:
  "digest_current s \<Longrightarrow> digest_current (run_all String ops s)"
  by (induction ops arbitrary: s) (simp_all add: run_digest_current)

section \<open>The properties of the specification\<close>

text \<open>
  C1. A run of \<^verbatim>\<open>selectFile\<close> in which the picker resolves with a non-empty path \<open>p\<close>
  and the backend answers the digest request for \<open>p\<close> with the string \<open>d\<close> ends with
  \<^verbatim>\<open>filePath\<close> equal to \<open>p\<close> and \<^verbatim>\<open>hashResult\<close> equal to \<open>d\<close>, unchanged.
\<close>

theorem selectFile_success_stores_path_and_digest:
  assumes "p \<noteq> []"
    and "backend ''calculate_file_hash'' p = InvokeResolved d"
  shows "filePath (snd (selectFile (PickerResolved (Some p)) backend String s)) = p
       \<and> hashResult (snd (selectFile (PickerResolved (Some p)) backend String s)) = d"
  using assms by (simp add: selectFile_resolved)

theorem selectFile_success_stores_path_and_digest_witness:
  "''/tmp/a.txt'' \<noteq> []
   \<and> backend_resolving ''e3b0c4'' ''calculate_file_hash'' ''/tmp/a.txt''
       = InvokeResolved ''e3b0c4''
   \<and> filePath (snd (selectFile (PickerResolved (Some ''/tmp/a.txt''))
        (backend_resolving ''e3b0c4'') String_js init_state)) = ''/tmp/a.txt''
   \<and> hashResult (snd (selectFile (PickerResolved (Some ''/tmp/a.txt''))
        (backend_resolving ''e3b0c4'') String_js init_state)) = ''e3b0c4''"
  using selectFile_success_stores_path_and_digest
    [where p = "''/tmp/a.txt''" and d = "''e3b0c4''"
       and backend = "backend_resolving ''e3b0c4''"
       and String = String_js and s = init_state]
  by (simp add: backend_resolving_def)




text \<open>
  C3. In every state reached from the initial one by runs of \<^verbatim>\<open>selectFile\<close> and
  \<^verbatim>\<open>calculateHash\<close>, one after the other, a non-empty \<^verbatim>\<open>hashResult\<close> is the digest that
  the most recent request returned, and that request was issued for the stored
  \<^verbatim>\<open>filePath\<close>. Every run of \<^verbatim>\<open>calculateHash\<close> with a non-empty \<^verbatim>\<open>filePath\<close> first
  assigns the empty string to \<^verbatim>\<open>hashResult\<close> and then issues its one request, at a moment
  when \<^verbatim>\<open>hashResult\<close> is the empty string; at the end of the run \<^verbatim>\<open>hashResult\<close> is the
  digest if the request resolved, and still empty if it was rejected.
\<close>

theorem hashResult_current_in_every_reachable_state:
  "digest_current (run_all String ops init_state)
   \<and> (filePath s \<noteq> [] \<longrightarrow>
        (\<exists>evs. emitted s (snd (calculateHash backend String s)) =
                 Assign_hashResult []
                 # Invoke ''calculate_file_hash'' (filePath s) []
                     (backend ''calculate_file_hash'' (filePath s))
                 # evs
               \<and> last_request evs = None)
        \<and> hashResult (snd (calculateHash backend String s)) =
            (case backend ''calculate_file_hash'' (filePath s) of
               InvokeResolved d \<Rightarrow> d | InvokeRejected e \<Rightarrow> []))"
proof -
  have "digest_current (init_state :: 'a state)"
    by (simp add: digest_current_def init_state_def)
  then have reachable: "digest_current (run_all String ops init_state)"
    by (rule run_all_digest_current)
  have "(\<exists>evs. emitted s (snd (calculateHash backend String s)) =
                 Assign_hashResult []
                 # Invoke ''calculate_file_hash'' (filePath s) []
                     (backend ''calculate_file_hash'' (filePath s))
                 # evs
               \<and> last_request evs = None)
        \<and> hashResult (snd (calculateHash backend String s)) =
            (case backend ''calculate_file_hash'' (filePath s) of
               InvokeResolved d \<Rightarrow> d | InvokeRejected e \<Rightarrow> [])"
    if "filePath s \<noteq> []"
  proof -
    from that obtain evs where
      "snd (calculateHash backend String s) =
         s\<lparr>hashResult :=
              (case backend ''calculate_file_hash'' (filePath s) of
                 InvokeResolved d \<Rightarrow> d | InvokeRejected e \<Rightarrow> []),
           trace := trace s @
             Assign_hashResult []
             # Invoke ''calculate_file_hash'' (filePath s) []
                 (backend ''calculate_file_hash'' (filePath s))
             # evs\<rparr>"
      and "last_request evs = None"
      using calculateHash_shape [of s backend String] by blast
    then show ?thesis
      by (simp add: emitted_def)
  qed
  with reachable show ?thesis by blast
qed

theorem hashResult_current_in_every_reachable_state_witness:
  "digest_current (run_all String_js
      [SelectFile (PickerResolved (Some ''/tmp/a.txt'')) (backend_resolving ''e3b0c4''),
       SelectFile (PickerResolved None) (backend_resolving ''e3b0c4''),
       SelectFile (PickerResolved (Some ''/tmp/b.txt''))
         (backend_rejecting (JsString ''file not found'')),
       CalculateHash (backend_resolving ''ba7816'')]
      init_state)
   \<and> filePath shown_state \<noteq> []
   \<and> (\<exists>evs. emitted shown_state
              (snd (calculateHash (backend_rejecting (JsString ''file not found'')) String_js
                 shown_state)) =
            Assign_hashResult []
            # Invoke ''calculate_file_hash'' ''/tmp/a.txt'' []
                (InvokeRejected (JsString ''file not found''))
            # evs
          \<and> last_request evs = None)
   \<and> hashResult (snd (calculateHash (backend_rejecting (JsString ''file not found'')) String_js
        shown_state)) = []"
  using hashResult_current_in_every_reachable_state
    [where String = String_js
       and ops = "[SelectFile (PickerResolved (Some ''/tmp/a.txt'')) (backend_resolving ''e3b0c4''),
                   SelectFile (PickerResolved None) (backend_resolving ''e3b0c4''),
                   SelectFile (PickerResolved (Some ''/tmp/b.txt''))
                     (backend_rejecting (JsString ''file not found'')),
                   CalculateHash (backend_resolving ''ba7816'')]"
       and s = shown_state
       and backend = "backend_rejecting (JsString ''file not found'')"]
  by (simp add: shown_state_def backend_rejecting_def)

text \<open>
  C4. Whatever \<^verbatim>\<open>filePath\<close> and \<^verbatim>\<open>hashResult\<close> were, a run of \<^verbatim>\<open>selectFile\<close> in which
  the picker resolves with no selection leaves both as they were and issues no digest
  request.
\<close>

theorem selectFile_cancel_changes_nothing:
  "filePath (snd (selectFile (PickerResolved None) backend String s)) = filePath s
   \<and> hashResult (snd (selectFile (PickerResolved None) backend String s)) = hashResult s
   \<and> requests (emitted s (snd (selectFile (PickerResolved None) backend String s))) = []"
  by (simp add: selectFile_cancelled emitted_def log_def)

text \<open>
  C5. Whatever \<^verbatim>\<open>hashResult\<close> was, a run of \<^verbatim>\<open>calculateHash\<close> with \<^verbatim>\<open>filePath\<close> empty
  issues no backend request and leaves \<^verbatim>\<open>hashResult\<close> (indeed the whole state) as it
  was.
\<close>

theorem calculateHash_without_path_is_noop:
  assumes "filePath s = []"
  shows "hashResult (snd (calculateHash backend String s)) = hashResult s
       \<and> requests (emitted s (snd (calculateHash backend String s))) = []
       \<and> snd (calculateHash backend String s) = s"
  using assms by (simp add: calculateHash_no_path emitted_def)

theorem calculateHash_without_path_is_noop_witness:
  "filePath (shown_state\<lparr>filePath := []\<rparr>) = []
   \<and> hashResult (snd (calculateHash (backend_resolving ''ba7816'') String_js
        (shown_state\<lparr>filePath := []\<rparr>))) = ''e3b0c4''
   \<and> requests (emitted (shown_state\<lparr>filePath := []\<rparr>)
        (snd (calculateHash (backend_resolving ''ba7816'') String_js
           (shown_state\<lparr>filePath := []\<rparr>)))) = []"
  using calculateHash_without_path_is_noop
    [where s = "shown_state\<lparr>filePath := []\<rparr>"
       and backend = "backend_resolving ''ba7816''" and String = String_js]
  by (simp add: emitted_def shown_state_def)

text \<open>
  C6. Two runs of \<^verbatim>\<open>selectFile\<close>, one after the other, with the selected paths \<open>p1\<close>
  then \<open>p2\<close>, whose digest requests are answered with \<open>d1\<close> then \<open>d2\<close>: at the end
  \<^verbatim>\<open>hashResult\<close> is \<open>d2\<close>, with nothing of \<open>d1\<close> in it, and \<^verbatim>\<open>filePath\<close> is \<open>p2\<close>.
\<close>

theorem second_selection_replaces_first:
  assumes "p1 \<noteq> []" and "backend1 ''calculate_file_hash'' p1 = InvokeResolved d1"
    and "p2 \<noteq> []" and "backend2 ''calculate_file_hash'' p2 = InvokeResolved d2"
  shows "hashResult (run_all String
            [SelectFile (PickerResolved (Some p1)) backend1,
             SelectFile (PickerResolved (Some p2)) backend2] s) = d2
       \<and> filePath (run_all String
            [SelectFile (PickerResolved (Some p1)) backend1,
             SelectFile (PickerResolved (Some p2)) backend2] s) = p2"
  using assms by (simp add: selectFile_resolved)

theorem second_selection_replaces_first_witness:
  "''/tmp/a.txt'' \<noteq> []
   \<and> backend_resolving ''e3b0c4'' ''calculate_file_hash'' ''/tmp/a.txt''
       = InvokeResolved ''e3b0c4''
   \<and> ''/tmp/b.txt'' \<noteq> []
   \<and> backend_resolving ''ba7816'' ''calculate_file_hash'' ''/tmp/b.txt''
       = InvokeResolved ''ba7816''
   \<and> hashResult (run_all String_js
        [SelectFile (PickerResolved (Some ''/tmp/a.txt'')) (backend_resolving ''e3b0c4''),
         SelectFile (PickerResolved (Some ''/tmp/b.txt'')) (backend_resolving ''ba7816'')]
        init_state) = ''ba7816''
   \<and> filePath (run_all String_js
        [SelectFile (PickerResolved (Some ''/tmp/a.txt'')) (backend_resolving ''e3b0c4''),
         SelectFile (PickerResolved (Some ''/tmp/b.txt'')) (backend_resolving ''ba7816'')]
        init_state) = ''/tmp/b.txt''"
  using second_selection_replaces_first
    [where ?p1.0 = "''/tmp/a.txt''" and ?d1.0 = "''e3b0c4''"
       and ?p2.0 = "''/tmp/b.txt''" and ?d2.0 = "''ba7816''"
       and ?backend1.0 = "backend_resolving ''e3b0c4''"
       and ?backend2.0 = "backend_resolving ''ba7816''"
       and String = String_js and s = init_state]
  by (simp add: backend_resolving_def)

text \<open>
  C7. When the picker call itself fails with an error \<open>e\<close>, \<^verbatim>\<open>selectFile\<close> catches
  \<open>e\<close> and drops it: the run is fulfilled, the only thing it did was to open the dialog
  (no notification, no digest request), \<^verbatim>\<open>filePath\<close> and \<^verbatim>\<open>hashResult\<close> are as
  before, and the outcome is the same as that of a cancelled selection.
\<close>

theorem selectFile_picker_failure_is_silent:
  "fst (selectFile (PickerRejected e) backend String s) = Inr ()
   \<and> emitted s (snd (selectFile (PickerRejected e) backend String s)) = [Open picker_options]
   \<and> notifications (emitted s (snd (selectFile (PickerRejected e) backend String s))) = []
   \<and> requests (emitted s (snd (selectFile (PickerRejected e) backend String s))) = []
   \<and> filePath (snd (selectFile (PickerRejected e) backend String s)) = filePath s
   \<and> hashResult (snd (selectFile (PickerRejected e) backend String s)) = hashResult s
   \<and> selectFile (PickerRejected e) backend String s
       = selectFile (PickerResolved None) backend String s"
  by (simp add: selectFile_rejected selectFile_cancelled emitted_def log_def)

text \<open>
  C8. In every sequence of runs, \<^verbatim>\<open>filePath\<close> is assigned only non-empty paths that the
  picker returned in that sequence; a non-empty \<^verbatim>\<open>filePath\<close> stays non-empty; and if
  \<^verbatim>\<open>filePath\<close> has changed, its new value is a path that the picker returned.
\<close>

theorem filePath_written_only_by_selection:
  "set (filePath_writes (emitted s (run_all String ops s))) \<subseteq> set (picked_paths ops) - {[]}
   \<and> (filePath s \<noteq> [] \<longrightarrow> filePath (run_all String ops s) \<noteq> [])
   \<and> (filePath (run_all String ops s) \<noteq> filePath s \<longrightarrow>
        filePath (run_all String ops s) \<in> set (picked_paths ops))"
proof -
  obtain evs where tr: "trace (run_all String ops s) = trace s @ evs"
    and wr: "set (filePath_writes evs) \<subseteq> set (picked_paths ops) - {[]}"
    and fp: "filePath (run_all String ops s) = filePath s
               \<or> filePath (run_all String ops s) \<in> set (picked_paths ops) - {[]}"
    using run_all_filePath [of String ops s] by blast
  from tr have "emitted s (run_all String ops s) = evs"
    by (rule emitted_append)
  with wr fp show ?thesis by auto
qed

theorem filePath_written_only_by_selection_witness:
  "set (filePath_writes (emitted init_state (run_all String_js
      [SelectFile (PickerResolved (Some ''/tmp/a.txt'')) (backend_resolving ''e3b0c4''),
       SelectFile (PickerResolved (Some [])) (backend_resolving ''e3b0c4''),
       CalculateHash (backend_rejecting (JsString ''file not found''))]
      init_state)))
     \<subseteq> set (picked_paths
         [SelectFile (PickerResolved (Some ''/tmp/a.txt'')) (backend_resolving ''e3b0c4''),
          SelectFile (PickerResolved (Some [])) (backend_resolving ''e3b0c4''),
          CalculateHash (backend_rejecting (JsString ''file not found''))])
       - {[]}
   \<and> filePath (run_all String_js
      [SelectFile (PickerResolved (Some ''/tmp/a.txt'')) (backend_resolving ''e3b0c4''),
       SelectFile (PickerResolved (Some [])) (backend_resolving ''e3b0c4''),
       CalculateHash (backend_rejecting (JsString ''file not found''))]
      init_state) \<noteq> filePath (init_state :: js_error state)
   \<and> filePath (run_all String_js
      [SelectFile (PickerResolved (Some ''/tmp/a.txt'')) (backend_resolving ''e3b0c4''),
       SelectFile (PickerResolved (Some [])) (backend_resolving ''e3b0c4''),
       CalculateHash (backend_rejecting (JsString ''file not found''))]
      init_state)
     \<in> set (picked_paths
         [SelectFile (PickerResolved (Some ''/tmp/a.txt'')) (backend_resolving ''e3b0c4''),
          SelectFile (PickerResolved (Some [])) (backend_resolving ''e3b0c4''),
          CalculateHash (backend_rejecting (JsString ''file not found''))])
   \<and> filePath shown_state \<noteq> []
   \<and> filePath (run_all String_js
      [SelectFile (PickerRejected (JsString ''dialog failed'')) (backend_resolving ''e3b0c4''),
       SelectFile (PickerResolved None) (backend_resolving ''e3b0c4'')]
      shown_state) \<noteq> []"
proof -
  have changed: "filePath (run_all String_js
      [SelectFile (PickerResolved (Some ''/tmp/a.txt'')) (backend_resolving ''e3b0c4''),
       SelectFile (PickerResolved (Some [])) (backend_resolving ''e3b0c4''),
       CalculateHash (backend_rejecting (JsString ''file not found''))]
      init_state) \<noteq> filePath (init_state :: js_error state)"
    by (simp add: selectFile_resolved selectFile_empty calculateHash_rejected log_def
        init_state_def backend_resolving_def backend_rejecting_def)
  have nonempty: "filePath shown_state \<noteq> []"
    by (simp add: shown_state_def)
  show ?thesis
    using changed nonempty
      filePath_written_only_by_selection
        [where String = String_js and s = "init_state :: js_error state"
           and ops = "[SelectFile (PickerResolved (Some ''/tmp/a.txt''))
                         (backend_resolving ''e3b0c4''),
                       SelectFile (PickerResolved (Some [])) (backend_resolving ''e3b0c4''),
                       CalculateHash (backend_rejecting (JsString ''file not found''))]"]
      filePath_written_only_by_selection
        [where String = String_js and s = shown_state
           and ops = "[SelectFile (PickerRejected (JsString ''dialog failed''))
                         (backend_resolving ''e3b0c4''),
                       SelectFile (PickerResolved None) (backend_resolving ''e3b0c4'')]"]
    by blast
qed

text \<open>
  C9. When the picker resolves with the empty string, \<^verbatim>\<open>selectFile\<close> does what it does
  on a cancelled selection: \<^verbatim>\<open>filePath\<close> and \<^verbatim>\<open>hashResult\<close> are as before and no digest
  request is issued.
\<close>

theorem selectFile_empty_selection_is_cancellation:
  "selectFile (PickerResolved (Some [])) backend String s
     = selectFile (PickerResolved None) backend String s
   \<and> filePath (snd (selectFile (PickerResolved (Some [])) backend String s)) = filePath s
   \<and> hashResult (snd (selectFile (PickerResolved (Some [])) backend String s)) = hashResult s
   \<and> requests (emitted s (snd (selectFile (PickerResolved (Some [])) backend String s))) = []"
  by (simp add: selectFile_empty selectFile_cancelled emitted_def log_def)




end
